theory Spec2Isabelle
  imports Complex_Main
begin

section \<open>Data model of \<open>server.js\<close>\<close>

text \<open>
  The Mongoose schema \<open>sessionSchema\<close> (lines 45--58). A JavaScript \<open>Number\<close> that holds a
  rating or an average is an exact rational here; \<open>timer\<close> and \<open>startTime\<close> are naturals
  (\<open>startTime\<close> is \<open>null\<close> until the timer is started). The value \<open>-1\<close> of \<open>rating\<close> is the
  source's mark for a skipped rating.
\<close>

record rating_tuple =
  rater :: string
  target :: string
  topic :: string
  rating :: rat

record session =
  sessionId :: string
  players :: "string list"
  timer :: nat
  isAnonymous :: bool
  isGameMode :: bool
  topics :: "string list"
  ratings :: "rating_tuple list"
  phase :: string
  online :: "string list"
  playerTokens :: "(string \<times> string) list"
  timerStarted :: bool
  startTime :: "nat option"

text \<open>
  What the server sends. \<open>socket.emit\<close> reaches the one connection, \<open>io.to(room).emit\<close>
  every connection that joined the room. A topic average is a number or the string
  \<open>'No ratings'\<close>.
\<close>

datatype dest = ToSocket nat | ToRoom string

datatype average = Num rat | NoRatings

datatype payload =
    Error string
  | SessionCreated string "(string \<times> string \<times> string) list" string
  | SessionData "string option" "string list" "string list" nat bool bool string bool "nat option"
  | TimerStarted nat "nat option" bool
  | AllRatingsSubmittedAnon string "(string \<times> average) list"
  | AllRatingsSubmittedRaw "rating_tuple list"
  | RatingsUpdated string

type_synonym event = "dest \<times> payload"

section \<open>The session collection\<close>

text \<open>
  The MongoDB collection is the list of its documents in insertion order.
  \<open>Session.findOne({ sessionId })\<close> returns the first document with that id; \<open>save\<close> on a
  document obtained from \<open>findOne\<close> writes it back in place; \<open>save\<close> on a new document
  appends it. Every handler runs from its \<open>findOne\<close> to its last \<open>save\<close> without another
  handler in between. A \<open>save\<close> of a document that \<open>findOne\<close> returned goes through; the
  first \<open>save\<close> of a new document may throw (see \<open>createSession\<close>).
\<close>

definition findOne :: "session list \<Rightarrow> string \<Rightarrow> session option" where
  "findOne db sid = find (\<lambda>d. sessionId d = sid) db"

fun save :: "session list \<Rightarrow> session \<Rightarrow> session list" where
  "save [] s = []"
| "save (d # ds) s = (if sessionId d = sessionId s then s # ds else d # save ds s)"

definition insert_doc :: "session list \<Rightarrow> session \<Rightarrow> session list" where
  "insert_doc db s = db @ [s]"

section \<open>Results emitter\<close>

text \<open>\<open>[...new Set(xs)]\<close>: the distinct elements in order of first occurrence.\<close>

definition uniq :: "'a list \<Rightarrow> 'a list" where
  "uniq xs = rev (remdups (rev xs))"

text \<open>
  The per-topic aggregate that \<open>emitResults\<close> computes for one player (lines 328--335):
  ratings equal to \<open>-1\<close> are filtered out before the mean is taken, and a topic with no
  rating left gets \<open>'No ratings'\<close>.
\<close>

definition topicAverages :: "session \<Rightarrow> string \<Rightarrow> (string \<times> average) list" where
  "topicAverages session player =
     (let playerRatings = filter (\<lambda>r. target r = player) (ratings session)
      in map (\<lambda>t.
           let ratingsForTopic = filter (\<lambda>r. topic r = t \<and> rating r \<noteq> -1) playerRatings
           in (t, if length ratingsForTopic > 0
                  then Num (sum_list (map rating ratingsForTopic) / of_nat (length ratingsForTopic))
                  else NoRatings))
         (topics session))"

text \<open>
  \<open>emitResults(session, sessionId, io)\<close>, lines 314--352. The result is the collection after
  the function's \<open>save\<close>, the session object as the function leaves it, and the events sent.
\<close>

definition emitResults :: "session list \<Rightarrow> session \<Rightarrow> string \<Rightarrow> session list \<times> session \<times> event list" where
  "emitResults db session sid =
     (let players' = filter (\<lambda>p. p \<noteq> ''admin'') (players session);
          submittedUsers = uniq (map rater (ratings session))
      in if isGameMode session \<and> length submittedUsers < length players' then (db, session, [])
         else if isAnonymous session \<and> length submittedUsers < length players' then (db, session, [])
         else
           let session' = session\<lparr>phase := ''results''\<rparr>;
               db' = save db session'
           in if isAnonymous session'
              then (db', session',
                    map (\<lambda>player. (ToRoom sid, AllRatingsSubmittedAnon player (topicAverages session' player)))
                        players')
              else (db', session', [(ToRoom sid, AllRatingsSubmittedRaw (ratings session'))]))"

section \<open>submitRatings\<close>

text \<open>
  The \<open>ratings\<close> argument is an object of objects, \<open>ratings[target][topic]\<close>; the two
  \<open>for ... in\<close> loops of lines 285--294 walk it in key order, which is the order of the
  association lists here.
\<close>

definition newRatings :: "string \<Rightarrow> (string \<times> (string \<times> rat) list) list \<Rightarrow> rating_tuple list" where
  "newRatings uname rs =
     concat (map (\<lambda>(tg, byTopic).
               map (\<lambda>(tp, v). \<lparr>rater = uname, target = tg, topic = tp, rating = v\<rparr>) byTopic) rs)"

definition submitRatings ::
  "nat \<Rightarrow> string \<Rightarrow> string \<Rightarrow> (string \<times> (string \<times> rat) list) list \<Rightarrow> session list
     \<Rightarrow> session list \<times> event list" where
  "submitRatings sock sid uname rs db =
     (case findOne db sid of
        None \<Rightarrow> (db, [(ToSocket sock, Error ''Session not found'')])
      | Some session \<Rightarrow>
          let session1 = session\<lparr>ratings := filter (\<lambda>r. rater r \<noteq> uname) (ratings session)\<rparr>;
              session2 = session1\<lparr>ratings := ratings session1 @ newRatings uname rs\<rparr>;
              db1 = save db session2;
              (db2, session3, evs) = emitResults db1 session2 sid
          in (db2, evs @ [(ToRoom sid, RatingsUpdated uname)]))"

section \<open>createSession\<close>

text \<open>
  What a call of the handler takes from its runtime rather than from its arguments: the
  string methods \<open>String.prototype.trim\<close> and \<open>toLowerCase\<close>, the value of
  \<open>generateSessionId()\<close>, the hex string of \<open>crypto.randomBytes(8)\<close> drawn for each player,
  and whether the construction of the document and its \<open>save\<close> (lines 108--123) go
  through. They do not, for one, when a player name contains a dot, which Mongoose refuses
  as a key of the \<open>playerTokens\<close> map; the \<open>catch\<close> of lines 133--136 then answers
  \<open>'Server error'\<close>.
\<close>

record runtime =
  trim :: "string \<Rightarrow> string"
  toLowerCase :: "string \<Rightarrow> string"
  generateSessionId :: string
  randomBytes :: "string \<Rightarrow> string"
  saveResolves :: bool

definition FRONTEND_URL :: string where
  "FRONTEND_URL = ''http://localhost:3000''"

text \<open>
  The handler of lines 65--137. \<open>players\<close> and \<open>topics\<close> are \<open>None\<close> when the field is
  missing or not an array. The checks are in the order of the source. (Line 70 lacks a
  closing parenthesis; the copy of the handler at line 580 has it.) The token map lists
  the players in their order, which is the order of \<open>Object.entries\<close> for names that are
  neither array indices nor \<open>__proto__\<close>.
\<close>

definition createSession ::
  "nat \<Rightarrow> string list option \<Rightarrow> nat \<Rightarrow> bool \<Rightarrow> bool \<Rightarrow> string list option \<Rightarrow> runtime
     \<Rightarrow> session list \<Rightarrow> session list \<times> event list" where
  "createSession sock playersOpt tm anon game topicsOpt rt db =
     (case playersOpt of
        None \<Rightarrow> (db, [(ToSocket sock, Error ''Invalid player data'')])
      | Some ps \<Rightarrow>
          if anon \<and> length ps < 4
          then (db, [(ToSocket sock, Error ''Anonymous mode requires at least 4 players'')])
          else if length ps < 2
          then (db, [(ToSocket sock, Error ''At least 2 players are required'')])
          else if length (uniq (map (\<lambda>name. toLowerCase rt (trim rt name)) ps)) \<noteq> length ps
          then (db, [(ToSocket sock, Error ''Each player must have a unique name'')])
          else if list_ex (\<lambda>name. trim rt name = []) ps
          then (db, [(ToSocket sock, Error ''Player names cannot be empty'')])
          else (case topicsOpt of
             None \<Rightarrow> (db, [(ToSocket sock, Error ''All topics must be filled'')])
           | Some ts \<Rightarrow>
               if list_ex (\<lambda>t. t = []) ts
               then (db, [(ToSocket sock, Error ''All topics must be filled'')])
               else
                 let newId = generateSessionId rt;
                     session = \<lparr>sessionId = newId, players = ps, timer = tm,
                                isAnonymous = anon, isGameMode = game, topics = ts,
                                ratings = [], phase = ''waiting'', online = [],
                                playerTokens = map (\<lambda>p. (p, randomBytes rt p)) ps,
                                timerStarted = False, startTime = None\<rparr>;
                     links = map (\<lambda>p. (p, randomBytes rt p,
                                        FRONTEND_URL @ ''/#/rate/'' @ newId @ ''/'' @ randomBytes rt p)) ps;
                     adminLink = FRONTEND_URL @ ''/#/rate/'' @ newId @ ''/admin''
                 in if saveResolves rt
                    then (insert_doc db session,
                          [(ToSocket sock, SessionCreated newId links adminLink)])
                    else (db, [(ToSocket sock, Error ''Server error'')])))"

section \<open>joinSession\<close>

text \<open>What the server keeps on a connection: the rooms it joined and \<open>socket.username\<close>.\<close>

record socket =
  rooms :: "string list"
  username :: "string option"

text \<open>
  The late joiner's aggregate of lines 188--198: every rating of the topic enters the
  mean, and a topic without ratings gets \<open>0\<close>.
\<close>

definition topicAverages_join :: "session \<Rightarrow> string \<Rightarrow> (string \<times> average) list" where
  "topicAverages_join session uname =
     (let playerRatings = filter (\<lambda>r. target r = uname) (ratings session)
      in map (\<lambda>t.
           let ratingsForTopic = map rating (filter (\<lambda>r. topic r = t) playerRatings)
           in (t, Num (if length ratingsForTopic \<noteq> 0
                       then sum_list ratingsForTopic / of_nat (length ratingsForTopic)
                       else 0)))
         (topics session))"

definition sessionData :: "string option \<Rightarrow> session \<Rightarrow> payload" where
  "sessionData u session =
     SessionData u (players session) (topics session) (timer session) (isAnonymous session)
       (isGameMode session) (phase session) (timerStarted session) (startTime session)"

text \<open>The handler of lines 139--215; the collection is only read.\<close>

definition joinSession ::
  "nat \<Rightarrow> socket \<Rightarrow> string \<Rightarrow> string \<Rightarrow> bool \<Rightarrow> session list \<Rightarrow> socket \<times> event list" where
  "joinSession sock sk sid token isAdmin db =
     (case findOne db sid of
        None \<Rightarrow> (sk, [(ToSocket sock, Error ''Session not found'')])
      | Some session \<Rightarrow>
          if isAdmin
          then (sk\<lparr>rooms := rooms sk @ [sid]\<rparr>, [(ToSocket sock, sessionData None session)])
          else (case map_option fst (find (\<lambda>(_, t). t = token) (playerTokens session)) of
             None \<Rightarrow> (sk, [(ToSocket sock, Error ''Invalid or expired token'')])
           | Some uname \<Rightarrow>
               if uname = [] then (sk, [(ToSocket sock, Error ''Invalid or expired token'')])
               else
                 let sk' = sk\<lparr>rooms := rooms sk @ [sid], username := Some uname\<rparr>;
                     submittedUsers = uniq (map rater (ratings session))
                 in (sk',
                     (ToSocket sock, sessionData (Some uname) session) #
                     (if length submittedUsers \<ge> 3
                      then (if isAnonymous session
                            then [(ToSocket sock, AllRatingsSubmittedAnon uname (topicAverages_join session uname))]
                            else [(ToSocket sock, AllRatingsSubmittedRaw (ratings session))])
                      else []))))"

section \<open>startTimer and the expiry callback\<close>

text \<open>
  The callback given to \<open>setTimeout\<close> (lines 236--269). It closes over \<open>sessionId\<close> only and
  reads the session afresh. \<open>autoRatings\<close> is the list built for one unsubmitted player;
  the lookup of an existing rating reads the ledger as it is when that player's turn
  starts.
\<close>

definition autoRatings :: "rating_tuple list \<Rightarrow> string list \<Rightarrow> string list \<Rightarrow> string \<Rightarrow> rating_tuple list" where
  "autoRatings rs ps ts uname =
     concat (map (\<lambda>tg.
       if tg \<noteq> uname
       then concat (map (\<lambda>tp.
              if find (\<lambda>r. rater r = uname \<and> target r = tg \<and> topic r = tp) rs = None
              then [\<lparr>rater = uname, target = tg, topic = tp, rating = -1\<rparr>]
              else []) ts)
       else []) ps)"

definition unsubmitted :: "session \<Rightarrow> string list" where
  "unsubmitted session =
     (let submittedUsers = uniq (map rater (ratings session));
          players' = filter (\<lambda>p. p \<noteq> ''admin'') (players session)
      in filter (\<lambda>p. p \<notin> set submittedUsers) players')"

definition timerExpired :: "string \<Rightarrow> session list \<Rightarrow> session list \<times> event list" where
  "timerExpired sid db =
     (case findOne db sid of
        None \<Rightarrow> (db, [])
      | Some updatedSession \<Rightarrow>
          let players' = filter (\<lambda>p. p \<noteq> ''admin'') (players updatedSession);
              us = unsubmitted updatedSession
          in if length us > 0 \<and> phase updatedSession \<noteq> ''results''
             then
               let session1 = updatedSession\<lparr>ratings :=
                       foldl (\<lambda>rs uname. rs @ autoRatings rs players' (topics updatedSession) uname)
                             (ratings updatedSession) us\<rparr>;
                   db1 = save db session1;
                   (db2, session2, evs) = emitResults db1 session1 sid
               in (db2, evs)
             else (db, []))"

text \<open>
  The handler of lines 217--274. \<open>now\<close> is the value of \<open>Date.now()\<close>. The third component
  is the call to \<open>setTimeout\<close>: the delay in milliseconds and the session id the callback
  closes over. The handler keeps no handle of the timeout and never calls \<open>clearTimeout\<close>.
\<close>

definition startTimer ::
  "nat \<Rightarrow> string \<Rightarrow> nat \<Rightarrow> session list \<Rightarrow> session list \<times> event list \<times> (nat \<times> string) list" where
  "startTimer sock sid now db =
     (case findOne db sid of
        None \<Rightarrow> (db, [(ToSocket sock, Error ''Session not found'')], [])
      | Some session \<Rightarrow>
          let session' = session\<lparr>timerStarted := True, startTime := Some now\<rparr>
          in (save db session',
              [(ToRoom sid, TimerStarted (timer session') (startTime session') True)],
              [(timer session' * 1000, sid)]))"

section \<open>The server as a state machine\<close>

text \<open>
  The delay that Node's \<open>setTimeout\<close> uses for a delay argument: an argument below 1 or
  above \<open>2^31 - 1\<close> milliseconds is replaced by 1.
\<close>

definition setTimeout_delay :: "nat \<Rightarrow> nat" where
  "setTimeout_delay ms = (if ms < 1 \<or> 2147483647 < ms then 1 else ms)"

text \<open>
  The state is the collection, the connections and the timeouts that are scheduled and
  have not fired, each with the time at which it is due (the time of the \<open>setTimeout\<close>
  call plus the delay that Node uses) and the session id of its callback. A request is one
  socket event or the firing of a scheduled timeout (named by its position among the
  pending ones).
\<close>

record server =
  sessions :: "session list"
  sockets :: "nat \<Rightarrow> socket"
  timeouts :: "(nat \<times> string) list"

datatype request =
    CreateSession nat "string list option" nat bool bool "string list option" runtime
  | JoinSession nat string string bool
  | StartTimer nat string nat
  | SubmitRatings nat string string "(string \<times> (string \<times> rat) list) list"
  | TimeoutFires nat

definition init_server :: server where
  "init_server = \<lparr>sessions = [], sockets = (\<lambda>_. \<lparr>rooms = [], username = None\<rparr>), timeouts = []\<rparr>"

fun step :: "server \<Rightarrow> request \<Rightarrow> server \<times> event list" where
  "step sv (CreateSession sock ps tm anon game ts rt) =
     (let (db', evs) = createSession sock ps tm anon game ts rt (sessions sv)
      in (sv\<lparr>sessions := db'\<rparr>, evs))"
| "step sv (JoinSession sock sid token isAdmin) =
     (let (sk', evs) = joinSession sock (sockets sv sock) sid token isAdmin (sessions sv)
      in (sv\<lparr>sockets := (sockets sv)(sock := sk')\<rparr>, evs))"
| "step sv (StartTimer sock sid now) =
     (let (db', evs, scheduled) = startTimer sock sid now (sessions sv)
      in (sv\<lparr>sessions := db',
              timeouts := timeouts sv @ map (\<lambda>(delay, sid'). (now + setTimeout_delay delay, sid')) scheduled\<rparr>,
          evs))"
| "step sv (SubmitRatings sock sid uname rs) =
     (let (db', evs) = submitRatings sock sid uname rs (sessions sv)
      in (sv\<lparr>sessions := db'\<rparr>, evs))"
| "step sv (TimeoutFires i) =
     (if i < length (timeouts sv)
      then let (db', evs) = timerExpired (snd (timeouts sv ! i)) (sessions sv)
           in (sv\<lparr>sessions := db', timeouts := take i (timeouts sv) @ drop (Suc i) (timeouts sv)\<rparr>, evs)
      else (sv, []))"

fun run :: "server \<Rightarrow> request list \<Rightarrow> server" where
  "run sv [] = sv"
| "run sv (q # qs) = run (fst (step sv q)) qs"

text \<open>Which connection an event reaches.\<close>

fun receives :: "(nat \<Rightarrow> socket) \<Rightarrow> nat \<Rightarrow> event \<Rightarrow> bool" where
  "receives socks c (ToSocket c', p) = (c = c')"
| "receives socks c (ToRoom r, p) = (r \<in> set (rooms (socks c)))"

section \<open>Example sessions\<close>

text \<open>
  The runtime of the examples. Its two string functions are \<open>trim\<close> and \<open>toLowerCase\<close> as
  they act on strings of ASCII characters, which is what the examples use: the white space
  removed is tab, line feed, vertical tab, form feed, carriage return and space, and the
  letters folded are \<open>A\<close> to \<open>Z\<close>. Every document is saved.
\<close>

definition isSpace :: "char \<Rightarrow> bool" where
  "isSpace c = (c \<in> set [CHR 0x09, CHR 0x0A, CHR 0x0B, CHR 0x0C, CHR 0x0D, CHR '' ''])"

definition trim_ascii :: "string \<Rightarrow> string" where
  "trim_ascii s = rev (dropWhile isSpace (rev (dropWhile isSpace s)))"

definition toLowerCase_ascii :: "string \<Rightarrow> string" where
  "toLowerCase_ascii s =
     map (\<lambda>c. case map_of (zip ''ABCDEFGHIJKLMNOPQRSTUVWXYZ'' ''abcdefghijklmnopqrstuvwxyz'') c of
                 None \<Rightarrow> c
               | Some l \<Rightarrow> l) s"

definition example_tokens :: "string \<Rightarrow> string" where
  "example_tokens p = ''tok-'' @ p"

definition example_runtime :: "string \<Rightarrow> runtime" where
  "example_runtime newId =
     \<lparr>trim = trim_ascii, toLowerCase = toLowerCase_ascii, generateSessionId = newId,
      randomBytes = example_tokens, saveResolves = True\<rparr>"

text \<open>A public session of two players, as \<open>createSession\<close> stores it.\<close>

definition public_requests :: "request list" where
  "public_requests =
     [CreateSession 0 (Some [''alice'', ''bob'']) 30 False False (Some [''clarity''])
        (example_runtime ''s1''),
      JoinSession 1 ''s1'' ''tok-alice'' False,
      JoinSession 2 ''s1'' ''tok-bob'' False]"

definition public_session :: session where
  "public_session =
     \<lparr>sessionId = ''s1'', players = [''alice'', ''bob''], timer = 30, isAnonymous = False,
      isGameMode = False, topics = [''clarity''], ratings = [], phase = ''waiting'', online = [],
      playerTokens = [(''alice'', ''tok-alice''), (''bob'', ''tok-bob'')], timerStarted = False,
      startTime = None\<rparr>"

definition tuple :: "string \<Rightarrow> string \<Rightarrow> string \<Rightarrow> rat \<Rightarrow> rating_tuple" where
  "tuple r tg tp v = \<lparr>rater = r, target = tg, topic = tp, rating = v\<rparr>"

text \<open>
  Three players and two topics in game mode; only \<open>A\<close> has submitted and the timer runs.
\<close>

definition abc_session :: session where
  "abc_session =
     \<lparr>sessionId = ''s2'', players = [''A'', ''B'', ''C''], timer = 1, isAnonymous = False,
      isGameMode = True, topics = [''X'', ''Y''],
      ratings = [tuple ''A'' ''B'' ''X'' 4, tuple ''A'' ''B'' ''Y'' 3,
                 tuple ''A'' ''C'' ''X'' 5, tuple ''A'' ''C'' ''Y'' 2],
      phase = ''waiting'', online = [],
      playerTokens = [(''A'', ''tok-A''), (''B'', ''tok-B''), (''C'', ''tok-C'')],
      timerStarted = True, startTime = Some 0\<rparr>"

text \<open>The \<open>allRatingsSubmitted\<close> events, in either shape.\<close>

fun is_allRatingsSubmitted :: "payload \<Rightarrow> bool" where
  "is_allRatingsSubmitted (AllRatingsSubmittedAnon u avgs) = True"
| "is_allRatingsSubmitted (AllRatingsSubmittedRaw rs) = True"
| "is_allRatingsSubmitted p = False"

text \<open>
  Four players in anonymous mode with two topics. \<open>bob\<close>, \<open>carol\<close> and \<open>dave\<close> have rated
  \<open>alice\<close>; \<open>alice\<close> has submitted nothing and the phase is still \<open>'waiting'\<close>.
\<close>

definition anon_session :: session where
  "anon_session =
     \<lparr>sessionId = ''s3'', players = [''alice'', ''bob'', ''carol'', ''dave''], timer = 30,
      isAnonymous = True, isGameMode = False, topics = [''clarity'', ''pace''],
      ratings = [tuple ''bob'' ''alice'' ''clarity'' 5, tuple ''carol'' ''alice'' ''clarity'' 3,
                 tuple ''dave'' ''alice'' ''clarity'' 4, tuple ''dave'' ''alice'' ''pace'' 2],
      phase = ''waiting'', online = [],
      playerTokens = [(''alice'', ''tok-alice''), (''bob'', ''tok-bob''),
                      (''carol'', ''tok-carol''), (''dave'', ''tok-dave'')],
      timerStarted = False, startTime = None\<rparr>"

text \<open>
  A game-mode session one of whose three players is named \<open>admin\<close>: \<open>admin\<close> and \<open>alice\<close>
  submit, \<open>bob\<close> does not.
\<close>

definition game_requests :: "request list" where
  "game_requests =
     [CreateSession 0 (Some [''admin'', ''alice'', ''bob'']) 30 False True (Some [''clarity''])
        (example_runtime ''s4''),
      JoinSession 1 ''s4'' ''tok-admin'' False,
      JoinSession 2 ''s4'' ''tok-alice'' False,
      JoinSession 3 ''s4'' ''tok-bob'' False,
      SubmitRatings 1 ''s4'' ''admin'' [(''alice'', [(''clarity'', 3)]), (''bob'', [(''clarity'', 4)])]]"

text \<open>
  The anonymous session of four players on the way to its reveal: the timer is started,
  \<open>bob\<close> and \<open>carol\<close> rate \<open>alice\<close> on one topic, and the timeout has not fired yet.
\<close>

definition anon_requests :: "request list" where
  "anon_requests =
     [CreateSession 0 (Some [''alice'', ''bob'', ''carol'', ''dave'']) 30 True False
        (Some [''clarity'', ''pace'']) (example_runtime ''s3''),
      JoinSession 1 ''s3'' ''tok-alice'' False,
      JoinSession 2 ''s3'' ''tok-bob'' False,
      JoinSession 3 ''s3'' ''tok-carol'' False,
      JoinSession 4 ''s3'' ''tok-dave'' False,
      StartTimer 0 ''s3'' 1000,
      SubmitRatings 2 ''s3'' ''bob'' [(''alice'', [(''clarity'', 5)])],
      SubmitRatings 3 ''s3'' ''carol'' [(''alice'', [(''clarity'', 3)])]]"

text \<open>The stored session after these requests.\<close>

definition anon_started :: session where
  "anon_started =
     \<lparr>sessionId = ''s3'', players = [''alice'', ''bob'', ''carol'', ''dave''], timer = 30,
      isAnonymous = True, isGameMode = False, topics = [''clarity'', ''pace''],
      ratings = [tuple ''bob'' ''alice'' ''clarity'' 5, tuple ''carol'' ''alice'' ''clarity'' 3],
      phase = ''waiting'', online = [],
      playerTokens = [(''alice'', ''tok-alice''), (''bob'', ''tok-bob''),
                      (''carol'', ''tok-carol''), (''dave'', ''tok-dave'')],
      timerStarted = True, startTime = Some 1000\<rparr>"

section \<open>Membership of ledger tuples\<close>

text \<open>
  A ledger is well-formed when every tuple names a rater and a target among the session's
  players and a topic among its topics. A \<open>submitRatings\<close> request is well-formed for the
  collection it arrives at when the session it addresses has its \<open>username\<close>, its targets
  and its topics; every other request is.
\<close>

definition ledger_ok :: "session \<Rightarrow> bool" where
  "ledger_ok s =
     list_all (\<lambda>r. rater r \<in> set (players s) \<and> target r \<in> set (players s) \<and> topic r \<in> set (topics s))
       (ratings s)"

fun request_ok :: "session list \<Rightarrow> request \<Rightarrow> bool" where
  "request_ok db (SubmitRatings sock sid uname rs) =
     (case findOne db sid of
        None \<Rightarrow> True
      | Some s \<Rightarrow>
          uname \<in> set (players s) \<and>
          list_all (\<lambda>(tg, byTopic). tg \<in> set (players s) \<and>
                      list_all (\<lambda>(tp, v). tp \<in> set (topics s)) byTopic) rs)"
| "request_ok db q = True"

fun requests_ok :: "server \<Rightarrow> request list \<Rightarrow> bool" where
  "requests_ok sv [] = True"
| "requests_ok sv (q # qs) = (request_ok (sessions sv) q \<and> requests_ok (fst (step sv q)) qs)"

text \<open>The public session with its timer started twice, at times 1000 and 5000.\<close>

definition restart_requests :: "request list" where
  "restart_requests = public_requests @ [StartTimer 0 ''s1'' 1000, StartTimer 0 ''s1'' 5000]"

text \<open>The \<open>rater\<close> fields that a payload carries.\<close>

fun payload_raters :: "payload \<Rightarrow> string list" where
  "payload_raters (AllRatingsSubmittedRaw rs) = map rater rs"
| "payload_raters p = []"

text \<open>
  The anonymous session once \<open>alice\<close> has submitted too; \<open>dave\<close>'s submission will be the
  fourth.
\<close>

definition anon_three_requests :: "request list" where
  "anon_three_requests =
     anon_requests @ [SubmitRatings 1 ''s3'' ''alice'' [(''bob'', [(''clarity'', 2)])]]"

section \<open>The collection: lookup after save\<close>

lemma findOne_sessionId: "findOne db sid = Some s \<Longrightarrow> sessionId s = sid"
  unfolding findOne_def by (induction db) (auto split: if_splits)

lemma findOne_save:
  "findOne db sid = Some s \<Longrightarrow> sessionId s' = sid \<Longrightarrow> findOne (save db s') sid = Some s'"
  unfolding findOne_def by (induction db) (auto split: if_splits)

lemma emitResults_cases:
  "emitResults db s sid = (db, s, []) \<or>
   (\<exists>evs. emitResults db s sid = (save db (s\<lparr>phase := ''results''\<rparr>), s\<lparr>phase := ''results''\<rparr>, evs))"
  by (simp add: emitResults_def Let_def)

lemma public_requests_run: "sessions (run init_server public_requests) = [public_session]"
  by (simp add: public_requests_def init_server_def createSession_def joinSession_def Let_def
      uniq_def trim_ascii_def toLowerCase_ascii_def isSpace_def insert_doc_def example_tokens_def
      example_runtime_def findOne_def public_session_def)

section \<open>Resubmission replaces the rater's tuples\<close>





section \<open>Timer expiry fills the gaps with skipped ratings\<close>

lemma set_uniq: "set (uniq xs) = set xs"
  by (simp add: uniq_def)

lemma autoRatings_member:
  "r \<in> set (autoRatings rs ps ts u) \<Longrightarrow>
     rater r = u \<and> rating r = -1 \<and> target r \<in> set ps \<and> target r \<noteq> u \<and> topic r \<in> set ts"
  by (auto simp: autoRatings_def split: if_splits)

lemma autoRatings_fills:
  assumes "tg \<in> set ps" "tg \<noteq> u" "tp \<in> set ts"
    and skipped: "\<forall>r\<in>set rs. rater r = u \<longrightarrow> rating r = -1"
  shows "\<lparr>rater = u, target = tg, topic = tp, rating = -1\<rparr> \<in> set (rs @ autoRatings rs ps ts u)"
proof (cases "find (\<lambda>r. rater r = u \<and> target r = tg \<and> topic r = tp) rs")
  case None
  then show ?thesis using assms by (auto simp: autoRatings_def)
next
  case (Some r)
  then have "r \<in> set rs" "rater r = u" "target r = tg" "topic r = tp"
    by (auto simp: find_Some_iff)
  moreover from this skipped have "rating r = -1" by blast
  ultimately have "r = \<lparr>rater = u, target = tg, topic = tp, rating = -1\<rparr>" by simp
  with \<open>r \<in> set rs\<close> show ?thesis by simp
qed

lemma fill_appends:
  "\<exists>added. foldl (\<lambda>rs u. rs @ autoRatings rs ps ts u) rs us = rs @ added \<and>
      (\<forall>r\<in>set added. rater r \<in> set us \<and> rating r = -1 \<and> target r \<in> set ps \<and> topic r \<in> set ts)"
proof (induction us arbitrary: rs)
  case Nil
  then show ?case by simp
next
  case (Cons u us)
  from Cons.IH[of "rs @ autoRatings rs ps ts u"] obtain added where
    a: "foldl (\<lambda>rs u. rs @ autoRatings rs ps ts u) (rs @ autoRatings rs ps ts u) us
          = (rs @ autoRatings rs ps ts u) @ added"
    and b: "\<forall>r\<in>set added. rater r \<in> set us \<and> rating r = -1 \<and> target r \<in> set ps \<and> topic r \<in> set ts"
    by blast
  have "\<forall>r\<in>set (autoRatings rs ps ts u @ added).
          rater r \<in> set (u # us) \<and> rating r = -1 \<and> target r \<in> set ps \<and> topic r \<in> set ts"
    using b autoRatings_member[of _ rs ps ts u] by auto
  with a show ?case by (intro exI[of _ "autoRatings rs ps ts u @ added"]) simp
qed

lemma fill_fills:
  assumes "\<forall>r\<in>set rs. rater r \<in> set us \<longrightarrow> rating r = -1"
    and "u \<in> set us" "tg \<in> set ps" "tg \<noteq> u" "tp \<in> set ts"
  shows "\<lparr>rater = u, target = tg, topic = tp, rating = -1\<rparr>
           \<in> set (foldl (\<lambda>rs u. rs @ autoRatings rs ps ts u) rs us)"
  using assms
proof (induction us arbitrary: rs)
  case Nil
  then show ?case by simp
next
  case (Cons v us)
  let ?rs1 = "rs @ autoRatings rs ps ts v"
  have inv: "\<forall>r\<in>set ?rs1. rater r \<in> set us \<longrightarrow> rating r = -1"
    using Cons.prems(1) autoRatings_member[of _ rs ps ts v] by auto
  show ?case
  proof (cases "u \<in> set us")
    case True
    with Cons.IH[OF inv] Cons.prems show ?thesis by simp
  next
    case False
    with Cons.prems have uv: "u = v" by simp
    have "\<forall>r\<in>set rs. rater r = v \<longrightarrow> rating r = -1" using Cons.prems(1) by simp
    with Cons.prems uv have "\<lparr>rater = u, target = tg, topic = tp, rating = -1\<rparr> \<in> set ?rs1"
      using autoRatings_fills[of tg ps v tp ts rs] by simp
    moreover obtain added where
      "foldl (\<lambda>rs u. rs @ autoRatings rs ps ts u) ?rs1 us = ?rs1 @ added"
      using fill_appends[of ps ts ?rs1 us] by blast
    ultimately show ?thesis by auto
  qed
qed

lemma unsubmitted_no_tuple: "r \<in> set (ratings s) \<Longrightarrow> rater r \<notin> set (unsubmitted s)"
  by (auto simp: unsubmitted_def set_uniq)

text \<open>
  C7. When the expiry callback finds the session with a phase other than \<open>'results'\<close> and
  at least one unsubmitted player, the ledger stored afterwards is the old ledger followed
  by added tuples, every one of them a skipped rating of an unsubmitted player; it holds a
  skipped tuple for every unsubmitted player, every other non-admin player as target and
  every topic; and the tuples of the raters who had submitted are the old ledger. When
  the phase is \<open>'results'\<close> or nobody is unsubmitted, the callback leaves the collection as
  it is and sends nothing.
\<close>

theorem timerExpired_fills:
  assumes found: "findOne db sid = Some s"
  shows "(phase s \<noteq> ''results'' \<and> unsubmitted s \<noteq> [] \<longrightarrow>
           (\<exists>s' added. findOne (fst (timerExpired sid db)) sid = Some s' \<and>
              (\<forall>u\<in>set (unsubmitted s). \<forall>tg\<in>set (filter (\<lambda>p. p \<noteq> ''admin'') (players s)). tg \<noteq> u \<longrightarrow>
                 (\<forall>tp\<in>set (topics s).
                    \<lparr>rater = u, target = tg, topic = tp, rating = -1\<rparr> \<in> set (ratings s'))) \<and>
              ratings s' = ratings s @ added \<and>
              (\<forall>r\<in>set added. rater r \<in> set (unsubmitted s) \<and> rating r = -1) \<and>
              filter (\<lambda>r. rater r \<notin> set (unsubmitted s)) (ratings s') = ratings s)) \<and>
         (phase s = ''results'' \<or> unsubmitted s = [] \<longrightarrow> timerExpired sid db = (db, []))"
proof (intro conjI impI)
  assume "phase s = ''results'' \<or> unsubmitted s = []"
  then show "timerExpired sid db = (db, [])"
    using found by (auto simp: timerExpired_def Let_def)
next
  assume live: "phase s \<noteq> ''results'' \<and> unsubmitted s \<noteq> []"
  let ?ps = "filter (\<lambda>p. p \<noteq> ''admin'') (players s)"
  let ?rs' = "foldl (\<lambda>rs u. rs @ autoRatings rs ?ps (topics s) u) (ratings s) (unsubmitted s)"
  define s1 where "s1 = s\<lparr>ratings := ?rs'\<rparr>"
  have id: "sessionId s = sid" using found by (rule findOne_sessionId)
  have f1: "findOne (save db s1) sid = Some s1"
    using found id by (intro findOne_save) (simp_all add: s1_def)
  have te: "fst (timerExpired sid db) = fst (emitResults (save db s1) s1 sid)"
    using found live by (simp add: timerExpired_def s1_def Let_def split_def)
  have "\<exists>s'. findOne (fst (timerExpired sid db)) sid = Some s' \<and> ratings s' = ?rs'"
  proof -
    consider (waits) "emitResults (save db s1) s1 sid = (save db s1, s1, [])"
      | (reveals) evs where "emitResults (save db s1) s1 sid =
           (save (save db s1) (s1\<lparr>phase := ''results''\<rparr>), s1\<lparr>phase := ''results''\<rparr>, evs)"
      using emitResults_cases[of "save db s1" s1 sid] by blast
    then show ?thesis
    proof cases
      case waits
      then show ?thesis using f1 by (simp add: te s1_def)
    next
      case reveals
      have "findOne (save (save db s1) (s1\<lparr>phase := ''results''\<rparr>)) sid = Some (s1\<lparr>phase := ''results''\<rparr>)"
        using f1 id by (intro findOne_save) (simp_all add: s1_def)
      then show ?thesis using reveals by (simp add: te s1_def)
    qed
  qed
  then obtain s' where s': "findOne (fst (timerExpired sid db)) sid = Some s'" "ratings s' = ?rs'"
    by blast
  obtain added where added: "?rs' = ratings s @ added"
    "\<forall>r\<in>set added. rater r \<in> set (unsubmitted s) \<and> rating r = -1"
    using fill_appends[of ?ps "topics s" "ratings s" "unsubmitted s"] by blast
  have old: "\<forall>r\<in>set (ratings s). rater r \<in> set (unsubmitted s) \<longrightarrow> rating r = -1"
    using unsubmitted_no_tuple by blast
  have fills: "\<forall>u\<in>set (unsubmitted s). \<forall>tg\<in>set ?ps. tg \<noteq> u \<longrightarrow>
                 (\<forall>tp\<in>set (topics s).
                    \<lparr>rater = u, target = tg, topic = tp, rating = -1\<rparr> \<in> set (ratings s'))"
    using fill_fills[OF old] s'(2) by simp
  have keep: "filter (\<lambda>r. rater r \<notin> set (unsubmitted s)) (ratings s') = ratings s"
  proof -
    have "filter (\<lambda>r. rater r \<notin> set (unsubmitted s)) (ratings s) = ratings s"
      using unsubmitted_no_tuple by (simp add: filter_id_conv)
    moreover have "filter (\<lambda>r. rater r \<notin> set (unsubmitted s)) added = []"
      using added(2) by (simp add: filter_empty_conv)
    ultimately show ?thesis using s'(2) added(1) by simp
  qed
  show "\<exists>s' added. findOne (fst (timerExpired sid db)) sid = Some s' \<and>
              (\<forall>u\<in>set (unsubmitted s). \<forall>tg\<in>set ?ps. tg \<noteq> u \<longrightarrow>
                 (\<forall>tp\<in>set (topics s).
                    \<lparr>rater = u, target = tg, topic = tp, rating = -1\<rparr> \<in> set (ratings s'))) \<and>
              ratings s' = ratings s @ added \<and>
              (\<forall>r\<in>set added. rater r \<in> set (unsubmitted s) \<and> rating r = -1) \<and>
              filter (\<lambda>r. rater r \<notin> set (unsubmitted s)) (ratings s') = ratings s"
    using s' added fills keep by (intro exI[of _ s'] exI[of _ added]) simp
qed

theorem timerExpired_fills_witness:
  "findOne [abc_session] ''s2'' = Some abc_session \<and>
   phase abc_session \<noteq> ''results'' \<and> unsubmitted abc_session = [''B'', ''C''] \<and>
   (\<exists>s'. findOne (fst (timerExpired ''s2'' [abc_session])) ''s2'' = Some s' \<and>
         tuple ''B'' ''A'' ''X'' (-1) \<in> set (ratings s') \<and>
         tuple ''C'' ''B'' ''Y'' (-1) \<in> set (ratings s') \<and>
         filter (\<lambda>r. rater r \<notin> {''B'', ''C''}) (ratings s') = ratings abc_session) \<and>
   findOne [abc_session\<lparr>phase := ''results''\<rparr>] ''s2'' = Some (abc_session\<lparr>phase := ''results''\<rparr>) \<and>
   timerExpired ''s2'' [abc_session\<lparr>phase := ''results''\<rparr>] = ([abc_session\<lparr>phase := ''results''\<rparr>], [])"
proof -
  have h: "findOne [abc_session] ''s2'' = Some abc_session"
    by (simp add: findOne_def abc_session_def)
  have ph: "phase abc_session \<noteq> ''results''"
    by (simp add: abc_session_def)
  have un: "unsubmitted abc_session = [''B'', ''C'']"
    by (simp add: unsubmitted_def abc_session_def uniq_def tuple_def)
  have ps: "filter (\<lambda>p. p \<noteq> ''admin'') (players abc_session) = [''A'', ''B'', ''C'']"
    and ts: "topics abc_session = [''X'', ''Y'']"
    by (simp_all add: abc_session_def)
  from timerExpired_fills [OF h] ph un obtain s' where
    a: "findOne (fst (timerExpired ''s2'' [abc_session])) ''s2'' = Some s'"
    and b: "\<forall>u\<in>set [''B'', ''C'']. \<forall>tg\<in>set (filter (\<lambda>p. p \<noteq> ''admin'') (players abc_session)). tg \<noteq> u \<longrightarrow>
                 (\<forall>tp\<in>set (topics abc_session).
                    \<lparr>rater = u, target = tg, topic = tp, rating = -1\<rparr> \<in> set (ratings s'))"
    and c: "filter (\<lambda>r. rater r \<notin> set [''B'', ''C'']) (ratings s') = ratings abc_session"
    by auto
  have b1: "tuple ''B'' ''A'' ''X'' (-1) \<in> set (ratings s')"
    and b2: "tuple ''C'' ''B'' ''Y'' (-1) \<in> set (ratings s')"
    using b by (simp_all add: ps ts tuple_def)
  have h2: "findOne [abc_session\<lparr>phase := ''results''\<rparr>] ''s2'' = Some (abc_session\<lparr>phase := ''results''\<rparr>)"
    by (simp add: findOne_def abc_session_def)
  have d: "timerExpired ''s2'' [abc_session\<lparr>phase := ''results''\<rparr>] = ([abc_session\<lparr>phase := ''results''\<rparr>], [])"
    using timerExpired_fills [OF h2] by simp
  from h ph un a b1 b2 c h2 d show ?thesis by auto
qed

section \<open>Late joiners\<close>

lemma length_uniq: "length (uniq xs) = card (set xs)"
  by (simp add: uniq_def length_remdups_card_conv)

text \<open>
  C10. A join that is not an admin join and whose token resolves to a player sends that
  connection an \<open>allRatingsSubmitted\<close> event exactly when the ledger holds tuples of at
  least three distinct raters. Mode, phase and the completion rule of \<open>emitResults\<close> play
  no part: the session is arbitrary.
\<close>

theorem joinSession_late_joiner:
  assumes "findOne db sid = Some s"
    and "find (\<lambda>(_, t). t = token) (playerTokens s) = Some (u, token)"
    and "u \<noteq> []"
  shows "(3 \<le> card (rater ` set (ratings s)) \<longrightarrow>
            (\<exists>p. snd (joinSession sock sk sid token False db) =
                    [(ToSocket sock, sessionData (Some u) s), (ToSocket sock, p)] \<and>
                  is_allRatingsSubmitted p \<and>
                  p = (if isAnonymous s then AllRatingsSubmittedAnon u (topicAverages_join s u)
                       else AllRatingsSubmittedRaw (ratings s)))) \<and>
         (card (rater ` set (ratings s)) < 3 \<longrightarrow>
            snd (joinSession sock sk sid token False db) = [(ToSocket sock, sessionData (Some u) s)] \<and>
            \<not> list_ex (\<lambda>ev. is_allRatingsSubmitted (snd ev)) (snd (joinSession sock sk sid token False db)))"
  using assms
  by (auto simp: joinSession_def Let_def length_uniq sessionData_def)

theorem joinSession_late_joiner_witness:
  "findOne [anon_session] ''s3'' = Some anon_session \<and>
   find (\<lambda>(_, t). t = ''tok-alice'') (playerTokens anon_session) = Some (''alice'', ''tok-alice'') \<and>
   card (rater ` set (ratings anon_session)) = 3 \<and>
   phase anon_session = ''waiting'' \<and>
   snd (joinSession 1 \<lparr>rooms = [], username = None\<rparr> ''s3'' ''tok-alice'' False [anon_session]) =
     [(ToSocket 1, sessionData (Some ''alice'') anon_session),
      (ToSocket 1, AllRatingsSubmittedAnon ''alice'' (topicAverages_join anon_session ''alice''))] \<and>
   findOne [public_session] ''s1'' = Some public_session \<and>
   find (\<lambda>(_, t). t = ''tok-bob'') (playerTokens public_session) = Some (''bob'', ''tok-bob'') \<and>
   card (rater ` set (ratings public_session)) = 0 \<and>
   snd (joinSession 2 \<lparr>rooms = [], username = None\<rparr> ''s1'' ''tok-bob'' False [public_session]) =
     [(ToSocket 2, sessionData (Some ''bob'') public_session)]"
proof -
  have h1: "findOne [anon_session] ''s3'' = Some anon_session"
    by (simp add: findOne_def anon_session_def)
  have h2: "find (\<lambda>(_, t). t = ''tok-alice'') (playerTokens anon_session) = Some (''alice'', ''tok-alice'')"
    by (simp add: anon_session_def)
  have h3: "card (rater ` set (ratings anon_session)) = 3"
    by (simp add: anon_session_def tuple_def)
  have h4: "isAnonymous anon_session" "phase anon_session = ''waiting''"
    by (simp_all add: anon_session_def)
  have g1: "findOne [public_session] ''s1'' = Some public_session"
    by (simp add: findOne_def public_session_def)
  have g2: "find (\<lambda>(_, t). t = ''tok-bob'') (playerTokens public_session) = Some (''bob'', ''tok-bob'')"
    by (simp add: public_session_def)
  have g3: "card (rater ` set (ratings public_session)) = 0"
    by (simp add: public_session_def)
  show ?thesis
    using joinSession_late_joiner [OF h1 h2, of 1 "\<lparr>rooms = [], username = None\<rparr>"]
      joinSession_late_joiner [OF g1 g2, of 2 "\<lparr>rooms = [], username = None\<rparr>"]
      h1 h2 h3 h4 g1 g2 g3
    by auto
qed

section \<open>Evaluating runs\<close>

lemmas run_defs = init_server_def createSession_def joinSession_def Let_def
      uniq_def trim_ascii_def toLowerCase_ascii_def isSpace_def insert_doc_def example_tokens_def
      example_runtime_def setTimeout_delay_def findOne_def
      submitRatings_def emitResults_def newRatings_def tuple_def unsubmitted_def startTimer_def
      timerExpired_def autoRatings_def topicAverages_def topicAverages_join_def sessionData_def

section \<open>Public mode: the phase after the first submission\<close>

lemma emitResults_public:
  "\<not> isAnonymous s \<Longrightarrow> \<not> isGameMode s \<Longrightarrow>
     emitResults db s sid =
       (save db (s\<lparr>phase := ''results''\<rparr>), s\<lparr>phase := ''results''\<rparr>,
        [(ToRoom sid, AllRatingsSubmittedRaw (ratings s))])"
  by (simp add: emitResults_def Let_def)

text \<open>
  C1, at the failing input. In the public session of \<open>alice\<close> and \<open>bob\<close>, \<open>alice\<close> submits
  first. \<open>emitResults\<close> has no gate for public mode: the raw ledger goes to the room and
  the stored phase is \<open>'results'\<close>, while \<open>bob\<close> has submitted nothing.
\<close>

theorem public_first_submission_sets_results:
  "fst (submitRatings 1 ''s1'' ''alice'' [(''bob'', [(''clarity'', 4)])]
          (sessions (run init_server public_requests)))
     = [public_session\<lparr>ratings := [tuple ''alice'' ''bob'' ''clarity'' 4], phase := ''results''\<rparr>] \<and>
   snd (submitRatings 1 ''s1'' ''alice'' [(''bob'', [(''clarity'', 4)])]
          (sessions (run init_server public_requests)))
     = [(ToRoom ''s1'', AllRatingsSubmittedRaw [tuple ''alice'' ''bob'' ''clarity'' 4]),
        (ToRoom ''s1'', RatingsUpdated ''alice'')] \<and>
   unsubmitted (public_session\<lparr>ratings := [tuple ''alice'' ''bob'' ''clarity'' 4], phase := ''results''\<rparr>)
     = [''bob'']"
  by (simp add: public_requests_run submitRatings_def findOne_def public_session_def
      emitResults_def Let_def newRatings_def tuple_def unsubmitted_def uniq_def)

section \<open>Game mode: the gate counts raters\<close>

text \<open>
  When the player names are distinct and every rater of the ledger is one of the counted
  players, the comparison of the two lengths in \<open>emitResults\<close> is the test that some
  counted player has not submitted.
\<close>

lemma gate_counts_players:
  assumes "distinct ps" and "set raters \<subseteq> set ps"
  shows "length (uniq raters) < length ps \<longleftrightarrow> \<not> set ps \<subseteq> set raters"
proof (cases "set ps \<subseteq> set raters")
  case True
  with assms(2) have "set raters = set ps" by blast
  then have "length (uniq raters) = length ps"
    using assms(1) by (simp add: length_uniq distinct_card)
  with True show ?thesis by simp
next
  case False
  with assms(2) have "set raters \<subset> set ps" by blast
  then have "card (set raters) < card (set ps)"
    by (intro psubset_card_mono) simp_all
  with False show ?thesis
    using assms(1) by (simp add: length_uniq distinct_card)
qed

text \<open>
  C3, at the failing input. The players are \<open>admin\<close>, \<open>alice\<close> and \<open>bob\<close> in game mode.
  \<open>emitResults\<close> drops \<open>admin\<close> from the players it counts but not from the raters it
  counts: once \<open>admin\<close> and \<open>alice\<close> have submitted, two raters meet two players, the
  ledger is broadcast and the phase is \<open>'results'\<close>, although \<open>bob\<close> is unsubmitted.
\<close>

theorem game_reveals_before_bob_submits:
  "map phase (sessions (run init_server game_requests)) = [''waiting''] \<and>
   map phase (sessions (fst (step (run init_server game_requests)
        (SubmitRatings 2 ''s4'' ''alice'' [(''bob'', [(''clarity'', 5)])])))) = [''results''] \<and>
   map unsubmitted (sessions (fst (step (run init_server game_requests)
        (SubmitRatings 2 ''s4'' ''alice'' [(''bob'', [(''clarity'', 5)])])))) = [[''bob'']] \<and>
   snd (step (run init_server game_requests)
        (SubmitRatings 2 ''s4'' ''alice'' [(''bob'', [(''clarity'', 5)])]))
     = [(ToRoom ''s4'', AllRatingsSubmittedRaw
           [tuple ''admin'' ''alice'' ''clarity'' 3, tuple ''admin'' ''bob'' ''clarity'' 4,
            tuple ''alice'' ''bob'' ''clarity'' 5]),
        (ToRoom ''s4'', RatingsUpdated ''alice'')]"
  by (simp add: game_requests_def run_defs)

section \<open>Anonymous mode: two aggregates of one ledger\<close>

lemma anon_requests_run:
  "sessions (run init_server anon_requests) = [anon_started] \<and>
   timeouts (run init_server anon_requests) = [(31000, ''s3'')]"
  by (simp add: anon_requests_def anon_started_def run_defs)

lemma map_of_tabulate: "t \<in> set ts \<Longrightarrow> map_of (map (\<lambda>t. (t, f t)) ts) t = Some (f t)"
  by (induction ts) auto

text \<open>
  The aggregate of \<open>emitResults\<close> has an entry for every topic of the session: the mean of
  the ratings of that player and topic that are not \<open>-1\<close>, or \<open>'No ratings'\<close> when there is
  none.
\<close>

lemma topicAverages_excludes_skipped:
  assumes "t \<in> set (topics s)"
  shows "map_of (topicAverages s p) t =
           Some (let valid = map rating (filter (\<lambda>r. target r = p \<and> topic r = t \<and> rating r \<noteq> -1) (ratings s))
                 in if valid = [] then NoRatings else Num (sum_list valid / of_nat (length valid)))"
proof -
  have "topicAverages s p = map (\<lambda>t. (t,
      let valid = map rating (filter (\<lambda>r. target r = p \<and> topic r = t \<and> rating r \<noteq> -1) (ratings s))
      in if valid = [] then NoRatings else Num (sum_list valid / of_nat (length valid)))) (topics s)"
    unfolding topicAverages_def Let_def
    by (rule map_cong[OF refl]) (simp add: conj_commute conj_left_commute)
  then show ?thesis
    using map_of_tabulate [OF assms] by simp
qed

text \<open>
  C5, at the failing input. The timeout fires on the anonymous session after \<open>bob\<close> and
  \<open>carol\<close> have rated \<open>alice\<close> on \<open>clarity\<close>: \<open>alice\<close> and \<open>dave\<close> get skipped tuples, all four
  are raters and \<open>emitResults\<close> sends \<open>alice\<close>'s averages as \<open>4\<close> for \<open>clarity\<close> and
  \<open>'No ratings'\<close> for \<open>pace\<close>. When \<open>alice\<close> then joins again, \<open>joinSession\<close> computes her
  averages from the same ledger with the skipped ratings counted as \<open>-1\<close>: \<open>7/3\<close> for
  \<open>clarity\<close> and \<open>-1\<close> for \<open>pace\<close>.
\<close>

theorem joinSession_averages_count_skipped:
  "hd (snd (step (run init_server anon_requests) (TimeoutFires 0)))
     = (ToRoom ''s3'', AllRatingsSubmittedAnon ''alice'' [(''clarity'', Num 4), (''pace'', NoRatings)]) \<and>
   last (snd (step (run init_server (anon_requests @ [TimeoutFires 0]))
                (JoinSession 1 ''s3'' ''tok-alice'' False)))
     = (ToSocket 1, AllRatingsSubmittedAnon ''alice'' [(''clarity'', Num (7 / 3)), (''pace'', Num (- 1))])"
  by (simp add: anon_requests_def run_defs)

section \<open>createSession: what is rejected\<close>

lemma uniq_length_distinct: "length (uniq (map f xs)) = length xs \<longleftrightarrow> distinct (map f xs)"
  by (metis length_uniq card_distinct distinct_card length_map)

text \<open>
  C8, the claim as stated fails: an empty \<open>topics\<close> array passes the check of line 96, and
  the session is created with no topic.
\<close>

theorem createSession_accepts_empty_topics:
  "createSession 0 (Some [''alice'', ''bob'']) 30 False False (Some []) (example_runtime ''s5'') []
     = ([\<lparr>sessionId = ''s5'', players = [''alice'', ''bob''], timer = 30, isAnonymous = False,
           isGameMode = False, topics = [], ratings = [], phase = ''waiting'', online = [],
           playerTokens = [(''alice'', ''tok-alice''), (''bob'', ''tok-bob'')],
           timerStarted = False, startTime = None\<rparr>],
        [(ToSocket 0, SessionCreated ''s5''
            [(''alice'', ''tok-alice'', ''http://localhost:3000/#/rate/s5/tok-alice''),
             (''bob'', ''tok-bob'', ''http://localhost:3000/#/rate/s5/tok-bob'')]
            ''http://localhost:3000/#/rate/s5/admin'')])"
  by (simp add: createSession_def uniq_def trim_ascii_def toLowerCase_ascii_def isSpace_def
      insert_doc_def example_tokens_def example_runtime_def FRONTEND_URL_def Let_def)

text \<open>
  C8, amended. \<open>createSession\<close> answers with one of its validation messages and leaves
  the collection as it is exactly when \<open>players\<close> or \<open>topics\<close> is missing or not an array,
  there are fewer than two players, fewer than four in anonymous mode, two names are equal
  after \<open>trim()\<close> and \<open>toLowerCase()\<close>, a name is empty after \<open>trim()\<close>, or a topic is the
  empty string. In every other case, the empty topic list included, the outcome is that of
  the save: when it goes through, one session is appended to the collection, in phase
  \<open>'waiting'\<close> with an empty ledger, and \<open>sessionCreated\<close> is sent; when it throws, the
  answer is \<open>'Server error'\<close> and the collection is as it was.
\<close>

theorem createSession_rejects_iff:
  "((\<exists>msg. msg \<noteq> ''Server error'' \<and>
           createSession sock ps tm anon game ts rt db = (db, [(ToSocket sock, Error msg)]))
      \<longleftrightarrow>
    (ps = None \<or> ts = None \<or>
     (\<exists>p t. ps = Some p \<and> ts = Some t \<and>
        (length p < 2 \<or> (anon \<and> length p < 4) \<or>
         \<not> distinct (map (\<lambda>name. toLowerCase rt (trim rt name)) p) \<or>
         (\<exists>name\<in>set p. trim rt name = []) \<or> [] \<in> set t)))) \<and>
   ((\<forall>msg. msg \<noteq> ''Server error'' \<longrightarrow>
           createSession sock ps tm anon game ts rt db \<noteq> (db, [(ToSocket sock, Error msg)]))
      \<longrightarrow>
    (if saveResolves rt
     then (\<exists>s links adminLink.
             createSession sock ps tm anon game ts rt db =
               (db @ [s], [(ToSocket sock, SessionCreated (generateSessionId rt) links adminLink)]) \<and>
             sessionId s = generateSessionId rt \<and> Some (players s) = ps \<and> Some (topics s) = ts \<and>
             ratings s = [] \<and> phase s = ''waiting'')
     else createSession sock ps tm anon game ts rt db = (db, [(ToSocket sock, Error ''Server error'')])))"
proof (cases ps)
  case None
  then show ?thesis by (simp add: createSession_def)
next
  case ps: (Some p)
  show ?thesis
  proof (cases ts)
    case None
    then show ?thesis using ps by (auto simp: createSession_def)
  next
    case ts: (Some t)
    show ?thesis
      using ps ts
      by (auto simp: createSession_def Let_def insert_doc_def uniq_length_distinct
          list_ex_iff)
  qed
qed

theorem createSession_rejects_iff_witness:
  "createSession 0 (Some [''alice'', ''Alice '']) 30 False False (Some [''clarity''])
       (example_runtime ''s5'') []
     = ([], [(ToSocket 0, Error ''Each player must have a unique name'')]) \<and>
   \<not> distinct (map (\<lambda>name. toLowerCase (example_runtime ''s5'') (trim (example_runtime ''s5'') name))
                  [''alice'', ''Alice '']) \<and>
   (\<exists>s links adminLink.
      createSession 0 (Some [''alice'', ''bob'']) 30 False False (Some [''clarity''])
          (example_runtime ''s5'') []
        = ([] @ [s], [(ToSocket 0, SessionCreated ''s5'' links adminLink)]) \<and>
      ratings s = [] \<and> phase s = ''waiting'') \<and>
   createSession 0 (Some [''alice'', ''bob'']) 30 False False (Some [''clarity''])
       ((example_runtime ''s5'')\<lparr>saveResolves := False\<rparr>) []
     = ([], [(ToSocket 0, Error ''Server error'')])"
proof -
  let ?rt = "example_runtime ''s5''"
  let ?rt' = "(example_runtime ''s5'')\<lparr>saveResolves := False\<rparr>"
  have a: "createSession 0 (Some [''alice'', ''Alice '']) 30 False False (Some [''clarity'']) ?rt []
     = ([], [(ToSocket 0, Error ''Each player must have a unique name'')])"
    by (simp add: createSession_def uniq_def trim_ascii_def toLowerCase_ascii_def isSpace_def
        example_runtime_def)
  have b: "\<not> distinct (map (\<lambda>name. toLowerCase ?rt (trim ?rt name)) [''alice'', ''Alice ''])"
    by (simp add: trim_ascii_def toLowerCase_ascii_def isSpace_def example_runtime_def)
  have c: "\<forall>msg. msg \<noteq> ''Server error'' \<longrightarrow>
      createSession 0 (Some [''alice'', ''bob'']) 30 False False (Some [''clarity'']) ?rt []
        \<noteq> ([], [(ToSocket 0, Error msg)])"
    by (simp add: createSession_def uniq_def trim_ascii_def toLowerCase_ascii_def isSpace_def
        insert_doc_def Let_def example_runtime_def)
  have c': "\<forall>msg. msg \<noteq> ''Server error'' \<longrightarrow>
      createSession 0 (Some [''alice'', ''bob'']) 30 False False (Some [''clarity'']) ?rt' []
        \<noteq> ([], [(ToSocket 0, Error msg)])"
    by (simp add: createSession_def uniq_def trim_ascii_def toLowerCase_ascii_def isSpace_def
        insert_doc_def Let_def example_runtime_def)
  have yes: "saveResolves ?rt" and no: "\<not> saveResolves ?rt'"
    and gid: "generateSessionId ?rt = ''s5''"
    by (simp_all add: example_runtime_def)
  from c yes gid
    createSession_rejects_iff [of 0 "Some [''alice'', ''bob'']" 30 False False "Some [''clarity'']" ?rt "[]"]
  have d: "\<exists>s links adminLink.
      createSession 0 (Some [''alice'', ''bob'']) 30 False False (Some [''clarity'']) ?rt []
        = ([] @ [s], [(ToSocket 0, SessionCreated ''s5'' links adminLink)]) \<and>
      ratings s = [] \<and> phase s = ''waiting''"
    by auto
  from c' no
    createSession_rejects_iff [of 0 "Some [''alice'', ''bob'']" 30 False False "Some [''clarity'']" ?rt' "[]"]
  have e: "createSession 0 (Some [''alice'', ''bob'']) 30 False False (Some [''clarity'']) ?rt' []
     = ([], [(ToSocket 0, Error ''Server error'')])"
    by auto
  from a b d e show ?thesis by blast
qed

section \<open>Membership of ledger tuples: what is enforced\<close>

text \<open>
  C9, the claim as stated fails: \<open>submitRatings\<close> stores the \<open>username\<close>, the targets and
  the topics it is sent without looking at the session's players or topics.
\<close>

theorem submitRatings_stores_foreign_names:
  "fst (submitRatings 9 ''s1'' ''mallory'' [(''zed'', [(''speed'', 7)])] [public_session])
     = [public_session\<lparr>ratings := [tuple ''mallory'' ''zed'' ''speed'' 7], phase := ''results''\<rparr>] \<and>
   ''mallory'' \<notin> set (players public_session) \<and>
   ''zed'' \<notin> set (players public_session) \<and>
   ''speed'' \<notin> set (topics public_session) \<and>
   \<not> ledger_ok (public_session\<lparr>ratings := [tuple ''mallory'' ''zed'' ''speed'' 7], phase := ''results''\<rparr>)"
  by (simp add: submitRatings_def findOne_def public_session_def emitResults_def Let_def
      newRatings_def tuple_def uniq_def ledger_ok_def)

lemma save_all_ok:
  "list_all ledger_ok db \<Longrightarrow> ledger_ok s \<Longrightarrow> list_all ledger_ok (save db s)"
  by (induction db) auto

lemma findOne_ok: "list_all ledger_ok db \<Longrightarrow> findOne db sid = Some s \<Longrightarrow> ledger_ok s"
  unfolding findOne_def by (induction db) (auto split: if_splits)

lemma emitResults_all_ok:
  assumes "list_all ledger_ok db" "ledger_ok s"
  shows "list_all ledger_ok (fst (emitResults db s sid))"
proof -
  have "ledger_ok (s\<lparr>phase := ''results''\<rparr>)" using assms(2) by (simp add: ledger_ok_def)
  then have "list_all ledger_ok (save db (s\<lparr>phase := ''results''\<rparr>))"
    using assms(1) by (rule save_all_ok[rotated])
  then show ?thesis
    using assms(1) emitResults_cases[of db s sid] by auto
qed

lemma newRatings_ok:
  assumes "uname \<in> set (players s)"
    and "list_all (\<lambda>(tg, byTopic). tg \<in> set (players s) \<and>
                      list_all (\<lambda>(tp, v). tp \<in> set (topics s)) byTopic) rs"
  shows "\<forall>r\<in>set (newRatings uname rs).
           rater r \<in> set (players s) \<and> target r \<in> set (players s) \<and> topic r \<in> set (topics s)"
  using assms by (fastforce simp: newRatings_def list_all_iff)

lemma submitRatings_all_ok:
  assumes "list_all ledger_ok db" "request_ok db (SubmitRatings sock sid uname rs)"
  shows "list_all ledger_ok (fst (submitRatings sock sid uname rs db))"
proof (cases "findOne db sid")
  case None
  then show ?thesis using assms(1) by (simp add: submitRatings_def)
next
  case (Some s)
  define s2 where "s2 = s\<lparr>ratings := filter (\<lambda>r. rater r \<noteq> uname) (ratings s) @ newRatings uname rs\<rparr>"
  have "ledger_ok s" using assms(1) Some by (rule findOne_ok)
  moreover have "\<forall>r\<in>set (newRatings uname rs).
           rater r \<in> set (players s) \<and> target r \<in> set (players s) \<and> topic r \<in> set (topics s)"
    using assms(2) Some by (intro newRatings_ok) simp_all
  ultimately have "ledger_ok s2"
    by (auto simp: ledger_ok_def s2_def list_all_iff)
  then have "list_all ledger_ok (fst (emitResults (save db s2) s2 sid))"
    using assms(1) by (intro emitResults_all_ok save_all_ok)
  then show ?thesis
    using Some by (simp add: submitRatings_def s2_def Let_def split_def)
qed

lemma unsubmitted_players: "set (unsubmitted s) \<subseteq> set (players s)"
  by (auto simp: unsubmitted_def)

lemma timerExpired_all_ok:
  assumes "list_all ledger_ok db"
  shows "list_all ledger_ok (fst (timerExpired sid db))"
proof (cases "findOne db sid")
  case None
  then show ?thesis using assms by (simp add: timerExpired_def)
next
  case (Some s)
  let ?ps = "filter (\<lambda>p. p \<noteq> ''admin'') (players s)"
  let ?rs' = "foldl (\<lambda>rs u. rs @ autoRatings rs ?ps (topics s) u) (ratings s) (unsubmitted s)"
  define s1 where "s1 = s\<lparr>ratings := ?rs'\<rparr>"
  have ok: "ledger_ok s" using assms Some by (rule findOne_ok)
  obtain added where added: "?rs' = ratings s @ added"
    "\<forall>r\<in>set added. rater r \<in> set (unsubmitted s) \<and> rating r = -1 \<and>
        target r \<in> set ?ps \<and> topic r \<in> set (topics s)"
    using fill_appends[of ?ps "topics s" "ratings s" "unsubmitted s"] by blast
  have "ledger_ok s1"
    using ok added unsubmitted_players[of s]
    by (auto simp: ledger_ok_def s1_def list_all_iff)
  then have "list_all ledger_ok (fst (emitResults (save db s1) s1 sid))"
    using assms by (intro emitResults_all_ok save_all_ok)
  then show ?thesis
    using Some assms by (simp add: timerExpired_def s1_def Let_def split_def)
qed

lemma createSession_all_ok:
  assumes "list_all ledger_ok db"
  shows "list_all ledger_ok (fst (createSession sock ps tm anon game ts rt db))"
  using assms
  by (auto simp: createSession_def Let_def insert_doc_def ledger_ok_def
      split: option.splits)

lemma startTimer_all_ok:
  assumes "list_all ledger_ok db"
  shows "list_all ledger_ok (fst (startTimer sock sid now db))"
proof (cases "findOne db sid")
  case None
  then show ?thesis using assms by (simp add: startTimer_def)
next
  case (Some s)
  have "ledger_ok s" using assms Some by (rule findOne_ok)
  then have "ledger_ok (s\<lparr>timerStarted := True, startTime := Some now\<rparr>)"
    by (simp add: ledger_ok_def)
  then show ?thesis
    using Some assms by (simp add: startTimer_def Let_def save_all_ok)
qed

lemma step_all_ok:
  assumes "list_all ledger_ok (sessions sv)" "request_ok (sessions sv) q"
  shows "list_all ledger_ok (sessions (fst (step sv q)))"
proof (cases q)
  case (CreateSession sock ps tm anon game ts rt)
  then show ?thesis
    using createSession_all_ok[OF assms(1), of sock ps tm anon game ts rt]
    by (simp add: split_def Let_def)
next
  case (JoinSession sock sid token isAdmin)
  then show ?thesis using assms(1) by (simp add: split_def Let_def)
next
  case (StartTimer sock sid now)
  then show ?thesis
    using startTimer_all_ok[OF assms(1), of sock sid now] by (simp add: split_def Let_def)
next
  case (SubmitRatings sock sid uname rs)
  then show ?thesis
    using submitRatings_all_ok[OF assms(1), of sock sid uname rs] assms(2)
    by (simp add: split_def Let_def)
next
  case (TimeoutFires i)
  then show ?thesis
    using timerExpired_all_ok[OF assms(1)] assms(1) by (simp add: split_def Let_def)
qed

lemma run_all_ok:
  "list_all ledger_ok (sessions sv) \<Longrightarrow> requests_ok sv qs \<Longrightarrow>
     list_all ledger_ok (sessions (run sv qs))"
proof (induction qs arbitrary: sv)
  case Nil
  then show ?case by simp
next
  case (Cons q qs)
  then show ?case using step_all_ok[of sv q] by simp
qed

text \<open>
  C9, amended. Starting from the empty collection, after any sequence of requests in which
  every \<open>submitRatings\<close> names a rater and targets among the players of the session it
  addresses and topics among its topics, every tuple of every stored ledger has its rater
  and target among the session's players and its topic among the session's topics. The
  tuples that the timer expiry inserts need no such condition.
\<close>

theorem ledger_membership_invariant:
  "requests_ok init_server qs \<Longrightarrow> list_all ledger_ok (sessions (run init_server qs))"
  by (rule run_all_ok) (simp_all add: init_server_def)

theorem ledger_membership_invariant_witness:
  "requests_ok init_server (anon_requests @ [TimeoutFires 0]) \<and>
   list_all ledger_ok (sessions (run init_server (anon_requests @ [TimeoutFires 0]))) \<and>
   length (concat (map ratings (sessions (run init_server (anon_requests @ [TimeoutFires 0]))))) = 14"
proof -
  have h: "requests_ok init_server (anon_requests @ [TimeoutFires 0])"
    by (simp add: anon_requests_def run_defs)
  have n: "length (concat (map ratings (sessions (run init_server (anon_requests @ [TimeoutFires 0]))))) = 14"
    by (simp add: anon_requests_def run_defs)
  from h n ledger_membership_invariant [OF h] show ?thesis by simp
qed

section \<open>Restarting the timer\<close>

text \<open>
  C4, the claim as stated fails. After two \<open>startTimer\<close> requests both timeouts are
  pending. The one due at 31000 was scheduled by the first call, when \<open>startTime\<close> was
  1000; the session's \<open>startTime\<close> is 5000 by now. When it fires, the callback fills in
  skipped ratings for \<open>alice\<close> and \<open>bob\<close> and the phase becomes \<open>'results'\<close>.
\<close>

theorem stale_timeout_mutates:
  "timeouts (run init_server restart_requests) = [(31000, ''s1''), (35000, ''s1'')] \<and>
   sessions (run init_server restart_requests)
     = [public_session\<lparr>timerStarted := True, startTime := Some 5000\<rparr>] \<and>
   sessions (fst (step (run init_server restart_requests) (TimeoutFires 0)))
     = [public_session\<lparr>ratings := [tuple ''alice'' ''bob'' ''clarity'' (- 1),
                                     tuple ''bob'' ''alice'' ''clarity'' (- 1)],
                         phase := ''results'', timerStarted := True, startTime := Some 5000\<rparr>] \<and>
   timeouts (fst (step (run init_server restart_requests) (TimeoutFires 0))) = [(35000, ''s1'')]"
  by (simp add: restart_requests_def public_requests_def public_session_def run_defs)

lemma findOne_map_timer:
  "findOne (map (\<lambda>d. d\<lparr>timerStarted := b, startTime := t\<rparr>) db) sid
     = map_option (\<lambda>d. d\<lparr>timerStarted := b, startTime := t\<rparr>) (findOne db sid)"
  unfolding findOne_def by (induction db) auto

lemma save_map_timer:
  "save (map (\<lambda>d. d\<lparr>timerStarted := b, startTime := t\<rparr>) db) (s\<lparr>timerStarted := b, startTime := t\<rparr>)
     = map (\<lambda>d. d\<lparr>timerStarted := b, startTime := t\<rparr>) (save db s)"
  by (induction db) auto

lemma retime_phase:
  "s\<lparr>timerStarted := b, startTime := t, phase := p\<rparr> = s\<lparr>phase := p, timerStarted := b, startTime := t\<rparr>"
  by (cases s) simp

lemma retime_ratings:
  "s\<lparr>timerStarted := b, startTime := t, ratings := rs\<rparr> = s\<lparr>ratings := rs, timerStarted := b, startTime := t\<rparr>"
  by (cases s) simp

lemma emitResults_map_timer:
  "emitResults (map (\<lambda>d. d\<lparr>timerStarted := b, startTime := t\<rparr>) db) (s\<lparr>timerStarted := b, startTime := t\<rparr>) sid
     = (map (\<lambda>d. d\<lparr>timerStarted := b, startTime := t\<rparr>) (fst (emitResults db s sid)),
        (fst (snd (emitResults db s sid)))\<lparr>timerStarted := b, startTime := t\<rparr>,
        snd (snd (emitResults db s sid)))"
proof -
  have "save (map (\<lambda>d. d\<lparr>timerStarted := b, startTime := t\<rparr>) db)
          (s\<lparr>timerStarted := b, startTime := t, phase := ''results''\<rparr>)
        = map (\<lambda>d. d\<lparr>timerStarted := b, startTime := t\<rparr>) (save db (s\<lparr>phase := ''results''\<rparr>))"
    by (subst retime_phase) (rule save_map_timer)
  then show ?thesis
    by (simp add: emitResults_def Let_def topicAverages_def retime_phase)
qed

lemma timerExpired_map_timer:
  "timerExpired sid (map (\<lambda>d. d\<lparr>timerStarted := b, startTime := t\<rparr>) db)
     = (map (\<lambda>d. d\<lparr>timerStarted := b, startTime := t\<rparr>) (fst (timerExpired sid db)),
        snd (timerExpired sid db))"
proof (cases "findOne db sid")
  case None
  then show ?thesis by (simp add: timerExpired_def findOne_map_timer)
next
  case (Some s)
  define s1 where "s1 = s\<lparr>ratings :=
      foldl (\<lambda>rs u. rs @ autoRatings rs (filter (\<lambda>p. p \<noteq> ''admin'') (players s)) (topics s) u)
            (ratings s) (unsubmitted s)\<rparr>"
  have un: "unsubmitted (s\<lparr>timerStarted := b, startTime := t\<rparr>) = unsubmitted s"
    by (simp add: unsubmitted_def)
  have s1': "s\<lparr>timerStarted := b, startTime := t, ratings :=
      foldl (\<lambda>rs u. rs @ autoRatings rs (filter (\<lambda>p. p \<noteq> ''admin'') (players s)) (topics s) u)
            (ratings s) (unsubmitted s)\<rparr> = s1\<lparr>timerStarted := b, startTime := t\<rparr>"
    unfolding s1_def by (rule retime_ratings)
  have left: "timerExpired sid (map (\<lambda>d. d\<lparr>timerStarted := b, startTime := t\<rparr>) db)
      = (if unsubmitted s \<noteq> [] \<and> phase s \<noteq> ''results''
         then (fst (emitResults (save (map (\<lambda>d. d\<lparr>timerStarted := b, startTime := t\<rparr>) db)
                                   (s1\<lparr>timerStarted := b, startTime := t\<rparr>))
                      (s1\<lparr>timerStarted := b, startTime := t\<rparr>) sid),
               snd (snd (emitResults (save (map (\<lambda>d. d\<lparr>timerStarted := b, startTime := t\<rparr>) db)
                                   (s1\<lparr>timerStarted := b, startTime := t\<rparr>))
                      (s1\<lparr>timerStarted := b, startTime := t\<rparr>) sid)))
         else (map (\<lambda>d. d\<lparr>timerStarted := b, startTime := t\<rparr>) db, []))"
    using Some by (simp add: timerExpired_def findOne_map_timer un s1' Let_def split_def)
  have right: "timerExpired sid db
      = (if unsubmitted s \<noteq> [] \<and> phase s \<noteq> ''results''
         then (fst (emitResults (save db s1) s1 sid), snd (snd (emitResults (save db s1) s1 sid)))
         else (db, []))"
    using Some by (simp add: timerExpired_def s1_def Let_def split_def)
  show ?thesis
    unfolding left right by (simp add: save_map_timer emitResults_map_timer)
qed

text \<open>
  C4, amended. \<open>startTimer\<close> on a session that is found sets \<open>timerStarted\<close> and sets
  \<open>startTime\<close> to now, whether or not the timer was started before, and schedules one more
  timeout, due \<open>timer * 1000\<close> milliseconds from now (one millisecond from now when that
  delay is 0 or above \<open>2^31 - 1\<close>); the timeouts that were pending stay pending. The expiry
  callback reads neither \<open>timerStarted\<close> nor \<open>startTime\<close>: on two collections that differ
  only in these fields it sends the same events and makes the same changes. Any two
  pending timeouts of one session, whichever call scheduled them, do the same to the
  collection and send the same events when fired in the same state.
\<close>

theorem startTimer_adds_a_timeout:
  assumes "findOne (sessions sv) sid = Some s"
  shows "timeouts (fst (step sv (StartTimer sock sid now)))
           = timeouts sv @ [(now + setTimeout_delay (timer s * 1000), sid)] \<and>
         findOne (sessions (fst (step sv (StartTimer sock sid now)))) sid
           = Some (s\<lparr>timerStarted := True, startTime := Some now\<rparr>) \<and>
         (\<forall>b t db. timerExpired sid (map (\<lambda>d. d\<lparr>timerStarted := b, startTime := t\<rparr>) db)
            = (map (\<lambda>d. d\<lparr>timerStarted := b, startTime := t\<rparr>) (fst (timerExpired sid db)),
               snd (timerExpired sid db))) \<and>
         (\<forall>i j. i < length (timeouts sv) \<and> j < length (timeouts sv) \<and>
                snd (timeouts sv ! i) = snd (timeouts sv ! j) \<longrightarrow>
                sessions (fst (step sv (TimeoutFires i))) = sessions (fst (step sv (TimeoutFires j))) \<and>
                snd (step sv (TimeoutFires i)) = snd (step sv (TimeoutFires j)))"
proof -
  have "sessionId s = sid" using assms by (rule findOne_sessionId)
  then have "findOne (save (sessions sv) (s\<lparr>timerStarted := True, startTime := Some now\<rparr>)) sid
          = Some (s\<lparr>timerStarted := True, startTime := Some now\<rparr>)"
    using assms by (intro findOne_save) simp_all
  then have first: "timeouts (fst (step sv (StartTimer sock sid now)))
           = timeouts sv @ [(now + setTimeout_delay (timer s * 1000), sid)] \<and>
         findOne (sessions (fst (step sv (StartTimer sock sid now)))) sid
           = Some (s\<lparr>timerStarted := True, startTime := Some now\<rparr>)"
    using assms by (simp add: startTimer_def Let_def)
  have same: "\<forall>i j. i < length (timeouts sv) \<and> j < length (timeouts sv) \<and>
                snd (timeouts sv ! i) = snd (timeouts sv ! j) \<longrightarrow>
                sessions (fst (step sv (TimeoutFires i))) = sessions (fst (step sv (TimeoutFires j))) \<and>
                snd (step sv (TimeoutFires i)) = snd (step sv (TimeoutFires j))"
    by (simp add: split_def Let_def)
  from first same timerExpired_map_timer show ?thesis by blast
qed

theorem startTimer_adds_a_timeout_witness:
  "findOne (sessions (run init_server (public_requests @ [StartTimer 0 ''s1'' 1000]))) ''s1''
     = Some (public_session\<lparr>timerStarted := True, startTime := Some 1000\<rparr>) \<and>
   timeouts (run init_server (public_requests @ [StartTimer 0 ''s1'' 1000])) = [(31000, ''s1'')] \<and>
   timeouts (fst (step (run init_server (public_requests @ [StartTimer 0 ''s1'' 1000]))
                    (StartTimer 0 ''s1'' 5000)))
     = [(31000, ''s1''), (35000, ''s1'')] \<and>
   findOne (sessions (fst (step (run init_server (public_requests @ [StartTimer 0 ''s1'' 1000]))
                    (StartTimer 0 ''s1'' 5000)))) ''s1''
     = Some (public_session\<lparr>timerStarted := True, startTime := Some 5000\<rparr>) \<and>
   findOne (sessions (run init_server restart_requests)) ''s1''
     = Some (public_session\<lparr>timerStarted := True, startTime := Some 5000\<rparr>) \<and>
   timeouts (run init_server restart_requests) = [(31000, ''s1''), (35000, ''s1'')] \<and>
   sessions (fst (step (run init_server restart_requests) (TimeoutFires 0)))
     = sessions (fst (step (run init_server restart_requests) (TimeoutFires 1))) \<and>
   snd (step (run init_server restart_requests) (TimeoutFires 0))
     = snd (step (run init_server restart_requests) (TimeoutFires 1))"
proof -
  have h: "findOne (sessions (run init_server (public_requests @ [StartTimer 0 ''s1'' 1000]))) ''s1''
     = Some (public_session\<lparr>timerStarted := True, startTime := Some 1000\<rparr>)"
    by (simp add: public_requests_def public_session_def run_defs)
  have t: "timeouts (run init_server (public_requests @ [StartTimer 0 ''s1'' 1000])) = [(31000, ''s1'')]"
    by (simp add: public_requests_def public_session_def run_defs)
  have p: "timer public_session = 30" by (simp add: public_session_def)
  have one: "timeouts (fst (step (run init_server (public_requests @ [StartTimer 0 ''s1'' 1000]))
                    (StartTimer 0 ''s1'' 5000)))
       = [(31000, ''s1''), (35000, ''s1'')] \<and>
     findOne (sessions (fst (step (run init_server (public_requests @ [StartTimer 0 ''s1'' 1000]))
                    (StartTimer 0 ''s1'' 5000)))) ''s1''
       = Some (public_session\<lparr>timerStarted := True, startTime := Some 5000\<rparr>)"
    using t p startTimer_adds_a_timeout [OF h, of 0 5000] by (simp add: setTimeout_delay_def)
  have h': "findOne (sessions (run init_server restart_requests)) ''s1''
     = Some (public_session\<lparr>timerStarted := True, startTime := Some 5000\<rparr>)"
    by (simp add: restart_requests_def public_requests_def public_session_def run_defs)
  have t': "timeouts (run init_server restart_requests) = [(31000, ''s1''), (35000, ''s1'')]"
    by (simp add: restart_requests_def public_requests_def public_session_def run_defs)
  have "\<forall>i j. i < length (timeouts (run init_server restart_requests)) \<and>
               j < length (timeouts (run init_server restart_requests)) \<and>
               snd (timeouts (run init_server restart_requests) ! i)
                 = snd (timeouts (run init_server restart_requests) ! j) \<longrightarrow>
               sessions (fst (step (run init_server restart_requests) (TimeoutFires i)))
                 = sessions (fst (step (run init_server restart_requests) (TimeoutFires j))) \<and>
               snd (step (run init_server restart_requests) (TimeoutFires i))
                 = snd (step (run init_server restart_requests) (TimeoutFires j))"
    using startTimer_adds_a_timeout [OF h', of 0 0] by blast
  then have two: "sessions (fst (step (run init_server restart_requests) (TimeoutFires 0)))
       = sessions (fst (step (run init_server restart_requests) (TimeoutFires 1))) \<and>
     snd (step (run init_server restart_requests) (TimeoutFires 0))
       = snd (step (run init_server restart_requests) (TimeoutFires 1))"
    unfolding t' by (elim allE[of _ 0] allE[of _ 1]) simp
  from h t one h' t' two show ?thesis by blast
qed

section \<open>Anonymous mode: who receives which aggregate\<close>

text \<open>
  C2, at the failing input. \<open>dave\<close>'s submission completes the anonymous session;
  \<open>emitResults\<close> sends one event per player, each to the room of the session and not to
  the connection of the player it names. The connection of \<open>alice\<close> has joined that room
  and receives the averages of \<open>bob\<close>.
\<close>

theorem anonymous_results_go_to_the_room:
  "snd (step (run init_server anon_three_requests)
          (SubmitRatings 4 ''s3'' ''dave'' [(''bob'', [(''pace'', 4)])]))
     = [(ToRoom ''s3'', AllRatingsSubmittedAnon ''alice'' [(''clarity'', Num 4), (''pace'', NoRatings)]),
        (ToRoom ''s3'', AllRatingsSubmittedAnon ''bob'' [(''clarity'', Num 2), (''pace'', Num 4)]),
        (ToRoom ''s3'', AllRatingsSubmittedAnon ''carol'' [(''clarity'', NoRatings), (''pace'', NoRatings)]),
        (ToRoom ''s3'', AllRatingsSubmittedAnon ''dave'' [(''clarity'', NoRatings), (''pace'', NoRatings)]),
        (ToRoom ''s3'', RatingsUpdated ''dave'')] \<and>
   username (sockets (run init_server anon_three_requests) 1) = Some ''alice'' \<and>
   receives (sockets (run init_server anon_three_requests)) 1
     (ToRoom ''s3'', AllRatingsSubmittedAnon ''bob'' [(''clarity'', Num 2), (''pace'', Num 4)])"
  by (simp add: anon_three_requests_def anon_requests_def run_defs)

lemma topicAverages_phase: "topicAverages (s\<lparr>phase := p\<rparr>) u = topicAverages s u"
  by (simp add: topicAverages_def)

lemma topicAverages_own_ratings:
  "topicAverages (s\<lparr>ratings := map (\<lambda>r. r\<lparr>rater := f r\<rparr>) (filter (\<lambda>r. target r = p) (ratings s))\<rparr>) p
     = topicAverages s p"
  by (simp add: topicAverages_def Let_def filter_map o_def)

text \<open>
  What does hold of the events of a reveal in anonymous mode: there is one per non-admin
  player and it goes to the room; the event that names player \<open>p\<close> holds the per-topic
  averages of \<open>p\<close>, which are computed from the tuples whose target is \<open>p\<close> and do not
  change when the raters of these tuples are renamed; no event holds a \<open>rater\<close> field.
\<close>

lemma emitResults_anonymous_payloads:
  assumes "isAnonymous s"
    and "length (filter (\<lambda>p. p \<noteq> ''admin'') (players s)) \<le> card (rater ` set (ratings s))"
  shows "snd (snd (emitResults db s sid))
           = map (\<lambda>p. (ToRoom sid, AllRatingsSubmittedAnon p (topicAverages s p)))
               (filter (\<lambda>p. p \<noteq> ''admin'') (players s)) \<and>
         (\<forall>ev\<in>set (snd (snd (emitResults db s sid))).
            payload_raters (snd ev) = [] \<and>
            (\<forall>socks c. receives socks c ev \<longleftrightarrow> sid \<in> set (rooms (socks c)))) \<and>
         (\<forall>p f. topicAverages
                   (s\<lparr>ratings := map (\<lambda>r. r\<lparr>rater := f r\<rparr>) (filter (\<lambda>r. target r = p) (ratings s))\<rparr>) p
                 = topicAverages s p)"
proof -
  have evs: "snd (snd (emitResults db s sid))
           = map (\<lambda>p. (ToRoom sid, AllRatingsSubmittedAnon p (topicAverages s p)))
               (filter (\<lambda>p. p \<noteq> ''admin'') (players s))"
    using assms by (simp add: emitResults_def Let_def length_uniq topicAverages_phase)
  have "\<forall>ev\<in>set (snd (snd (emitResults db s sid))).
            payload_raters (snd ev) = [] \<and>
            (\<forall>socks c. receives socks c ev \<longleftrightarrow> sid \<in> set (rooms (socks c)))"
    unfolding evs by auto
  with evs topicAverages_own_ratings show ?thesis by blast
qed

end
